theory Spec2Isabelle
  imports Main
begin

section \<open>Python text\<close>

text \<open>
  A Python \<open>str\<close> is modelled as the list of its code points. Isabelle's \<open>char\<close> has
  256 values, so the model covers text whose code points lie in U+0000..U+00FF; the
  character classes below are CPython's classes restricted to that range.

  \<open>is_space\<close> is \<open>Py_UNICODE_ISSPACE\<close>: the class behind \<open>str.strip()\<close> and behind
  \<open>\s\<close> in a \<open>str\<close> pattern. \<open>is_word\<close> is \<open>\w\<close> (alphanumeric or underscore),
  \<open>is_digit\<close> is \<open>\d\<close> (decimal digit).
\<close>

definition is_space :: "char \<Rightarrow> bool" where
  "is_space c = (of_char c \<in> {9, 10, 11, 12, 13, 28, 29, 30, 31, 32, 133, 160 :: nat})"

definition is_digit :: "char \<Rightarrow> bool" where
  "is_digit c = (let n = (of_char c :: nat) in 48 \<le> n \<and> n \<le> 57)"

definition is_word :: "char \<Rightarrow> bool" where
  "is_word c = (let n = (of_char c :: nat) in
     (48 \<le> n \<and> n \<le> 57) \<or> (65 \<le> n \<and> n \<le> 90) \<or> n = 95 \<or> (97 \<le> n \<and> n \<le> 122) \<or>
     n = 170 \<or> n = 178 \<or> n = 179 \<or> n = 181 \<or> n = 185 \<or> n = 186 \<or>
     (188 \<le> n \<and> n \<le> 190) \<or> (192 \<le> n \<and> n \<le> 214) \<or> (216 \<le> n \<and> n \<le> 246) \<or>
     248 \<le> n)"

text \<open>The two delimiters that cannot be written inside a string literal here.\<close>

definition sq :: string where
  "sq = [CHR 0x27]"

definition dq :: string where
  "dq = [CHR 0x22]"

text \<open>\<open>str.strip()\<close>: leading and trailing whitespace removed.\<close>

definition strip :: "string \<Rightarrow> string" where
  "strip s = rev (dropWhile is_space (rev (dropWhile is_space s)))"

text \<open>\<open>s.startswith(p)\<close> and the substring test \<open>sub in s\<close>.\<close>

fun startswith :: "string \<Rightarrow> string \<Rightarrow> bool" where
  "startswith s [] = True"
| "startswith [] (p # ps) = False"
| "startswith (c # cs) (p # ps) = (c = p \<and> startswith cs ps)"

fun py_in :: "string \<Rightarrow> string \<Rightarrow> bool" where
  "py_in sub [] = (sub = [])"
| "py_in sub (c # cs) = (startswith (c # cs) sub \<or> py_in sub cs)"

text \<open>\<open>", ".join(xs)\<close>.\<close>

fun join :: "string \<Rightarrow> string list \<Rightarrow> string" where
  "join sep [] = []"
| "join sep [x] = x"
| "join sep (x # y # ys) = x @ sep @ join sep (y # ys)"

text \<open>The decimal rendering of a non-negative integer, as an f-string prints \<open>len(...)\<close>.\<close>

definition digit_char :: "nat \<Rightarrow> char" where
  "digit_char d = char_of (48 + d)"

fun str_nat :: "nat \<Rightarrow> string" where
  "str_nat n = (if n < 10 then [digit_char n] else str_nat (n div 10) @ [digit_char (n mod 10)])"

declare str_nat.simps [simp del]

section \<open>The regular expressions of the argument extraction\<close>

text \<open>
  The two patterns of \<open>process_query\<close> use literals, a greedy \<open>+\<close> over a character
  class, a greedy \<open>?\<close> and one capturing group. \<open>rx\<close> holds exactly these forms and
  \<open>rx_match\<close> is the backtracking matcher of \<open>re\<close> for them, written with a
  continuation: a greedy item first tries its longest alternative and falls back to a
  shorter one when the rest of the pattern fails. A match state is the unread text and
  the text captured by group 1.
\<close>

datatype rx =
    Lit string
  | Plus "char \<Rightarrow> bool"
  | Opt rx
  | Cat rx rx
  | Grp rx

type_synonym mstate = "string \<times> string option"

fun class_plus :: "(char \<Rightarrow> bool) \<Rightarrow> (mstate \<Rightarrow> mstate option) \<Rightarrow> mstate \<Rightarrow> mstate option" where
  "class_plus P k ([], g) = None"
| "class_plus P k (c # cs, g) =
     (if P c
      then (case class_plus P k (cs, g) of Some r \<Rightarrow> Some r | None \<Rightarrow> k (cs, g))
      else None)"

primrec rx_match :: "rx \<Rightarrow> (mstate \<Rightarrow> mstate option) \<Rightarrow> mstate \<Rightarrow> mstate option" where
  "rx_match (Lit p) k st =
     (if startswith (fst st) p then k (drop (length p) (fst st), snd st) else None)"
| "rx_match (Plus P) k st = class_plus P k st"
| "rx_match (Opt r) k st = (case rx_match r k st of Some res \<Rightarrow> Some res | None \<Rightarrow> k st)"
| "rx_match (Cat a b) k st = rx_match a (rx_match b k) st"
| "rx_match (Grp r) k st =
     rx_match r (\<lambda>st'. k (fst st', Some (take (length (fst st) - length (fst st')) (fst st)))) st"

text \<open>
  \<open>re.findall(pattern, s)\<close> for a pattern with one group: scan from the left, at each
  position try to match there; a match contributes its group (the empty string when the
  group took no part) and the scan resumes where the match ended, one character further
  when the match was empty; without a match the scan moves one character on.
\<close>

definition group_text :: "string option \<Rightarrow> string" where
  "group_text g = (case g of None \<Rightarrow> [] | Some t \<Rightarrow> t)"

function findall :: "rx \<Rightarrow> string \<Rightarrow> string list" where
  "findall r s =
     (case rx_match r Some (s, None) of
        Some (rest, g) \<Rightarrow>
          (if length rest < length s then group_text g # findall r rest
           else group_text g # (case s of [] \<Rightarrow> [] | c # cs \<Rightarrow> findall r cs))
      | None \<Rightarrow> (case s of [] \<Rightarrow> [] | c # cs \<Rightarrow> findall r cs))"
  by pat_completeness auto
termination
  by (relation "measure (\<lambda>(r, s). length s)") auto

declare findall.simps [simp del]

text \<open>\<open>r"named\s+'?([\w\-\d]+)'?"\<close> and \<open>r"by\s+([\w\-\d]+)"\<close>.\<close>

definition is_name_char :: "char \<Rightarrow> bool" where
  "is_name_char c = (is_word c \<or> c = CHR ''-'' \<or> is_digit c)"

definition pod_name_rx :: rx where
  "pod_name_rx =
     Cat (Lit ''named'') (Cat (Plus is_space) (Cat (Opt (Lit sq))
       (Cat (Grp (Plus is_name_char)) (Opt (Lit sq)))))"

definition deployment_name_rx :: rx where
  "deployment_name_rx = Cat (Lit ''by'') (Cat (Plus is_space) (Grp (Plus is_name_char)))"

text \<open>\<open>xs[0] if xs else None\<close>: the first element, or nothing.\<close>

definition first_or_none :: "string list \<Rightarrow> string option" where
  "first_or_none xs = (case xs of [] \<Rightarrow> None | x # _ \<Rightarrow> Some x)"

section \<open>Python values, exceptions and the outside world\<close>

text \<open>
  The values that reach the program from outside are parsed JSON documents: the body of
  the inbound request and the body of the completion service's reply. \<open>JObj\<close> is the
  parsed \<open>dict\<close> (its keys are distinct); a float is kept as mantissa and exponent, the
  program never looks inside one.
\<close>

datatype json =
    JNull
  | JBool bool
  | JInt int
  | JFloat int int
  | JStr string
  | JArr "json list"
  | JObj "(string \<times> json) list"

text \<open>
  An exception is its class and its \<open>str(e)\<close>. Only the classes the handlers tell apart
  are kept separate; every class here derives from \<open>Exception\<close>.
\<close>

datatype exn_class =
    ApiException "int option"
  | ValidationError
  | HTTPError
  | IndexError
  | KeyError
  | TypeError
  | AttributeError
  | OtherException

datatype exn = Exn (exn_cls: exn_class) (exn_text: string)

fun type_name :: "json \<Rightarrow> string" where
  "type_name JNull = ''NoneType''"
| "type_name (JBool b) = ''bool''"
| "type_name (JInt i) = ''int''"
| "type_name (JFloat m e) = ''float''"
| "type_name (JStr s) = ''str''"
| "type_name (JArr xs) = ''list''"
| "type_name (JObj kvs) = ''dict''"

definition no_attribute :: "json \<Rightarrow> string \<Rightarrow> exn" where
  "no_attribute v attr =
     Exn AttributeError (sq @ type_name v @ sq @ '' object has no attribute '' @ sq @ attr @ sq)"

text \<open>\<open>v.get(key, default)\<close>, \<open>v[0]\<close> and \<open>v.strip()\<close> on a parsed JSON value.\<close>

fun py_get :: "json \<Rightarrow> string \<Rightarrow> json \<Rightarrow> exn + json" where
  "py_get (JObj kvs) key dflt = Inr (case map_of kvs key of None \<Rightarrow> dflt | Some v \<Rightarrow> v)"
| "py_get v key dflt = Inl (no_attribute v ''get'')"

fun py_first :: "json \<Rightarrow> exn + json" where
  "py_first (JArr []) = Inl (Exn IndexError ''list index out of range'')"
| "py_first (JArr (x # xs)) = Inr x"
| "py_first (JStr []) = Inl (Exn IndexError ''string index out of range'')"
| "py_first (JStr (c # cs)) = Inr (JStr [c])"
| "py_first (JObj kvs) = Inl (Exn KeyError ''0'')"
| "py_first v = Inl (Exn TypeError (sq @ type_name v @ sq @ '' object is not subscriptable''))"

fun py_strip :: "json \<Rightarrow> exn + string" where
  "py_strip (JStr s) = Inr (strip s)"
| "py_strip v = Inl (no_attribute v ''strip'')"

text \<open>
  The reply of \<open>requests.post\<close>: its status code, the message \<open>raise_for_status\<close> would
  raise with, and what \<open>response.json()\<close> gives. A pod as the cluster client returns
  it: \<open>pod.metadata.name\<close> and \<open>pod.status.phase\<close> (which may be \<open>None\<close>).
\<close>

record http_response =
  status_code :: nat
  http_error_text :: string
  json_result :: "exn + json"

record pod =
  metadata_name :: string
  status_phase :: "string option"

text \<open>
  The environment of one request. The first five fields are the remote services: the
  completion service as a function of the prompt, and the four cluster API calls the
  program makes (\<open>list_namespaced_pod\<close> takes the namespace and the optional label selector,
  \<open>read_namespaced_pod\<close> the name and the namespace, \<open>list_node\<close> gives the node names).
  The last four are library behaviour that depends on the installed versions: \<open>str()\<close> of a
  value that is not a string, the message of the \<open>TypeError\<close> of \<open>re.findall\<close> on such a
  value, and pydantic's treatment of a value offered for a \<open>str\<close> field (the coerced string,
  if it accepts the value, and the text of its \<open>ValidationError\<close>).
\<close>

record env =
  requests_post :: "string \<Rightarrow> exn + http_response"
  list_namespaced_pod :: "string \<Rightarrow> string option \<Rightarrow> exn + pod list"
  read_namespaced_pod :: "string \<Rightarrow> string \<Rightarrow> exn + pod"
  list_node :: "exn + string list"
  get_api_resources :: "exn + unit"
  py_str :: "json \<Rightarrow> string"
  re_type_error :: "json \<Rightarrow> string"
  pydantic_str :: "json \<Rightarrow> string option"
  pydantic_error :: "json \<Rightarrow> string"

text \<open>
  A computation returns the remote calls it made, each with the exception it raised if it
  raised one, and either the exception that left the computation or its result.
\<close>

datatype call =
    Post string
  | ListNamespacedPod string "string option"
  | ReadNamespacedPod string string
  | ListNode
  | GetApiResources

type_synonym event = "call \<times> exn option"

type_synonym 'a io = "event list \<times> (exn + 'a)"

definition ret :: "'a \<Rightarrow> 'a io" where
  "ret x = ([], Inr x)"

definition lift :: "exn + 'a \<Rightarrow> 'a io" where
  "lift r = ([], r)"

definition remote :: "call \<Rightarrow> exn + 'a \<Rightarrow> 'a io" where
  "remote c r = ([(c, case r of Inl e \<Rightarrow> Some e | Inr x \<Rightarrow> None)], r)"

definition bind :: "'a io \<Rightarrow> ('a \<Rightarrow> 'b io) \<Rightarrow> 'b io" where
  "bind m f =
     (case m of
        (l, Inl e) \<Rightarrow> (l, Inl e)
      | (l, Inr x) \<Rightarrow> (case f x of (l', r) \<Rightarrow> (l @ l', r)))"

text \<open>\<open>try: m  except Exception as e: h(e)\<close>.\<close>

definition try_except :: "'a io \<Rightarrow> (exn \<Rightarrow> 'a io) \<Rightarrow> 'a io" where
  "try_except m h =
     (case m of
        (l, Inl e) \<Rightarrow> (case h e of (l', r) \<Rightarrow> (l @ l', r))
      | (l, Inr x) \<Rightarrow> (l, Inr x))"

definition gateway_call :: "call \<Rightarrow> bool" where
  "gateway_call c = (case c of Post p \<Rightarrow> False | _ \<Rightarrow> True)"

section \<open>The completion service\<close>

text \<open>
  \<open>generate_mistral_response\<close>: post the prompt, \<open>raise_for_status\<close> (an \<open>HTTPError\<close> for
  a status from 400 to 599), parse the body and read
  \<open>data.get("choices", [{}])[0].get("message", {}).get("content", "").strip()\<close>.
\<close>

definition raise_for_status :: "http_response \<Rightarrow> exn + unit" where
  "raise_for_status response =
     (if 400 \<le> status_code response \<and> status_code response < 600
      then Inl (Exn HTTPError (http_error_text response))
      else Inr ())"

definition generate_mistral_response :: "env \<Rightarrow> string \<Rightarrow> string io" where
  "generate_mistral_response env prompt =
     bind (remote (Post prompt) (requests_post env prompt)) (\<lambda>response.
     bind (lift (raise_for_status response)) (\<lambda>_.
     bind (lift (json_result response)) (\<lambda>data.
     bind (lift (py_get data ''choices'' (JArr [JObj []]))) (\<lambda>choices.
     bind (lift (py_first choices)) (\<lambda>choice.
     bind (lift (py_get choice ''message'' (JObj []))) (\<lambda>message.
     bind (lift (py_get message ''content'' (JStr []))) (\<lambda>content.
     lift (py_strip content))))))))"

section \<open>The cluster helpers\<close>

definition get_pods :: "env \<Rightarrow> string \<Rightarrow> string list io" where
  "get_pods env namespace =
     bind (remote (ListNamespacedPod namespace None) (list_namespaced_pod env namespace None))
       (\<lambda>pods. ret (map metadata_name pods))"

definition get_node_count :: "env \<Rightarrow> nat io" where
  "get_node_count env = bind (remote ListNode (list_node env)) (\<lambda>nodes. ret (length nodes))"

definition is_api_server_accessible :: "env \<Rightarrow> string io" where
  "is_api_server_accessible env =
     try_except (bind (remote GetApiResources (get_api_resources env)) (\<lambda>_. ret ''Yes''))
       (\<lambda>e. ret ''No'')"

definition get_pod_status :: "env \<Rightarrow> string \<Rightarrow> string \<Rightarrow> string option io" where
  "get_pod_status env pod_name namespace =
     try_except
       (bind (remote (ReadNamespacedPod pod_name namespace) (read_namespaced_pod env pod_name namespace))
          (\<lambda>pod. ret (status_phase pod)))
       (\<lambda>e. case exn_cls e of
          ApiException status \<Rightarrow>
            (if status = Some 404 then ret (Some ''Pod not found.'')
             else ret (Some ''An error occurred while retrieving pod status.''))
        | _ \<Rightarrow> ret (Some ''An unexpected error occurred while retrieving pod status.''))"

definition get_pods_by_deployment :: "env \<Rightarrow> string \<Rightarrow> string \<Rightarrow> string io" where
  "get_pods_by_deployment env deployment_name namespace =
     try_except
       (bind (remote (ListNamespacedPod namespace (Some (''app='' @ deployment_name)))
                (list_namespaced_pod env namespace (Some (''app='' @ deployment_name))))
          (\<lambda>pods. if pods \<noteq> [] then ret deployment_name
                  else ret (''No pods found for deployment '' @ sq @ deployment_name @ sq @ ''.'')))
       (\<lambda>e. case exn_cls e of
          ApiException status \<Rightarrow> ret ''An error occurred while retrieving pods for the deployment.''
        | _ \<Rightarrow> ret ''An unexpected error occurred while retrieving pods for the deployment.'')"

section \<open>The dispatcher\<close>

text \<open>
  The f-string of \<open>process_query\<close> with the query interpolated; a query that is not a
  string is rendered by \<open>str()\<close>. The text is the source's, line by line.
\<close>

definition py_format :: "env \<Rightarrow> json \<Rightarrow> string" where
  "py_format env v = (case v of JStr s \<Rightarrow> s | _ \<Rightarrow> py_str env v)"

definition str_opt :: "string option \<Rightarrow> string" where
  "str_opt v = (case v of None \<Rightarrow> ''None'' | Some s \<Rightarrow> s)"

definition structured_prompt :: "string \<Rightarrow> string" where
  "structured_prompt query =
     ''\<newline>'' @
     ''        You are a Kubernetes assistant. Given a user query, identify the Kubernetes action needed. Here are some examples:\<newline>'' @
     ''        \<newline>'' @
     ''        - '' @ dq @ ''How many pods are in the default namespace?'' @ dq @ '' -> count pods\<newline>'' @
     ''        - '' @ dq @ ''List all pods in the default namespace.'' @ dq @ '' -> list all pods\<newline>'' @
     ''        - '' @ dq @ ''What is the status of the pod named 'example-pod'?'' @ dq @ '' -> check pod status\<newline>'' @
     ''        - '' @ dq @ ''How many nodes are there in the cluster?'' @ dq @ '' -> count nodes\<newline>'' @
     ''        - '' @ dq @ ''Is the API server accessible?'' @ dq @ '' -> check API server\<newline>'' @
     ''        - '' @ dq @ ''Which pod is spawned by my-deployment?'' @ dq @ '' -> list pods for deployment\<newline>'' @
     ''\<newline>'' @
     ''        Based on this, interpret the following query: '' @ dq @ query @ dq @ ''\<newline>'' @
     ''        ''"

text \<open>
  \<open>re.findall(pattern, query)\<close> raises a \<open>TypeError\<close> when the query is not a string.
  \<open>extract_pod_name\<close> is lines 108 and 109 of the source, \<open>extract_deployment_name\<close>
  lines 121 and 122.
\<close>

definition re_findall :: "env \<Rightarrow> rx \<Rightarrow> json \<Rightarrow> exn + string list" where
  "re_findall env r v =
     (case v of JStr s \<Rightarrow> Inr (findall r s) | _ \<Rightarrow> Inl (Exn TypeError (re_type_error env v)))"

definition extract_pod_name :: "env \<Rightarrow> json \<Rightarrow> exn + string option" where
  "extract_pod_name env query =
     (case re_findall env pod_name_rx query of
        Inl e \<Rightarrow> Inl e
      | Inr found \<Rightarrow> Inr (first_or_none found))"

definition extract_deployment_name :: "env \<Rightarrow> json \<Rightarrow> exn + string option" where
  "extract_deployment_name env query =
     (case re_findall env deployment_name_rx query of
        Inl e \<Rightarrow> Inl e
      | Inr found \<Rightarrow> Inr (first_or_none found))"

text \<open>
  The seven branches of the \<open>if\<close>/\<open>elif\<close> chain, in the order of the source. A name is
  used only when it is truthy: present and not empty.
\<close>

definition branch_count_pods :: "env \<Rightarrow> string io" where
  "branch_count_pods env =
     bind (get_pods env ''default'') (\<lambda>pods.
       ret (''There are '' @ str_nat (length pods) @ '' pods in the default namespace.''))"

definition branch_list_all_pods :: "env \<Rightarrow> string io" where
  "branch_list_all_pods env =
     bind (get_pods env ''default'') (\<lambda>pod_names. ret (join '', '' pod_names))"

definition branch_check_pod_status :: "env \<Rightarrow> json \<Rightarrow> string io" where
  "branch_check_pod_status env query =
     bind (lift (extract_pod_name env query)) (\<lambda>found.
       case found of
         Some pod_name \<Rightarrow>
           (if pod_name \<noteq> [] then
              bind (get_pod_status env pod_name ''default'') (\<lambda>pod_status.
                ret (''The status of the pod '' @ sq @ pod_name @ sq @ '' is '' @ sq @
                     str_opt pod_status @ sq @ ''.''))
            else ret ''Invalid pod name format in query.'')
       | None \<Rightarrow> ret ''Invalid pod name format in query.'')"

definition branch_count_nodes :: "env \<Rightarrow> string io" where
  "branch_count_nodes env =
     bind (get_node_count env) (\<lambda>node_count.
       ret (''There are '' @ str_nat node_count @ '' nodes in the cluster.''))"

definition branch_check_api_server :: "env \<Rightarrow> string io" where
  "branch_check_api_server env = is_api_server_accessible env"

definition branch_list_pods_for_deployment :: "env \<Rightarrow> json \<Rightarrow> string io" where
  "branch_list_pods_for_deployment env query =
     bind (lift (extract_deployment_name env query)) (\<lambda>found.
       case found of
         Some deployment_name \<Rightarrow>
           (if deployment_name \<noteq> [] then
              bind (get_pods_by_deployment env deployment_name ''default'') (\<lambda>pod_names.
                ret (''The pod(s) spawned by deployment '' @ sq @ deployment_name @ sq @
                     '' are: '' @ pod_names))
            else ret ''Invalid deployment name format in query.'')
       | None \<Rightarrow> ret ''Invalid deployment name format in query.'')"

definition branch_unknown :: "string io" where
  "branch_unknown = ret ''I'm sorry, I couldn't determine the action for this query.''"

definition dispatch :: "env \<Rightarrow> json \<Rightarrow> string \<Rightarrow> string io" where
  "dispatch env query intent_response =
     (if py_in ''count pods'' intent_response then branch_count_pods env
      else if py_in ''list all pods'' intent_response then branch_list_all_pods env
      else if py_in ''check pod status'' intent_response then branch_check_pod_status env query
      else if py_in ''count nodes'' intent_response then branch_count_nodes env
      else if py_in ''check API server'' intent_response then branch_check_api_server env
      else if py_in ''list pods for deployment'' intent_response
        then branch_list_pods_for_deployment env query
      else branch_unknown)"

text \<open>
  \<open>classify\<close> is line 98, \<open>process_query_body\<close> the body of the \<open>try\<close>, and
  \<open>process_query\<close> the whole function with its \<open>except Exception\<close>.
\<close>

definition classify :: "env \<Rightarrow> json \<Rightarrow> string io" where
  "classify env query = generate_mistral_response env (structured_prompt (py_format env query))"

definition process_query_body :: "env \<Rightarrow> json \<Rightarrow> string io" where
  "process_query_body env query = bind (classify env query) (dispatch env query)"

definition error_answer :: "exn \<Rightarrow> string" where
  "error_answer e = ''An error occurred while processing your query: '' @ exn_text e"

definition process_query :: "env \<Rightarrow> json \<Rightarrow> string io" where
  "process_query env query =
     try_except (process_query_body env query) (\<lambda>e. ret (error_answer e))"

section \<open>The endpoint\<close>

text \<open>
  \<open>QueryResponse(query=..., answer=...)\<close>: pydantic validates the two \<open>str\<close> fields. The
  answer is a string already; a query that is a string passes, \<open>None\<close> is refused, any other
  value is coerced or refused as the installed version decides.
\<close>

definition QueryResponse :: "env \<Rightarrow> json \<Rightarrow> string \<Rightarrow> exn + string \<times> string" where
  "QueryResponse env query answer =
     (case query of
        JStr s \<Rightarrow> Inr (s, answer)
      | JNull \<Rightarrow> Inl (Exn ValidationError (pydantic_error env query))
      | _ \<Rightarrow>
          (case pydantic_str env query of
             Some s \<Rightarrow> Inr (s, answer)
           | None \<Rightarrow> Inl (Exn ValidationError (pydantic_error env query))))"

datatype payload =
    Answered string string
  | ValidationErrors exn
  | UnexpectedError string

datatype reply = Reply (reply_status: nat) (reply_body: payload)

text \<open>
  \<open>create_query\<close>, given what \<open>request.get_json()\<close> gives (the parsed body, or the
  exception it raises).
\<close>

definition create_query :: "env \<Rightarrow> exn + json \<Rightarrow> reply io" where
  "create_query env get_json =
     try_except
       (bind (lift get_json) (\<lambda>request_data.
        bind (lift (py_get request_data ''query'' JNull)) (\<lambda>query.
        bind (process_query env query) (\<lambda>answer.
        bind (lift (QueryResponse env query answer)) (\<lambda>response.
        ret (Reply 200 (Answered (fst response) (snd response))))))))
       (\<lambda>e. case exn_cls e of
          ValidationError \<Rightarrow> ret (Reply 400 (ValidationErrors e))
        | _ \<Rightarrow> ret (Reply 500 (UnexpectedError ''An unexpected error occurred.'')))"

section \<open>The specification's vocabulary\<close>

text \<open>
  The intents of the specification and its rule for resolving one: the canonical phrases
  in their priority order, the first phrase contained in the raw text wins, no phrase
  gives \<open>Unknown\<close>. \<open>intent_branch\<close> is the specification's table from intent to branch.
\<close>

datatype intent =
    CountPods
  | ListPods
  | CheckPodStatus
  | CountNodes
  | CheckApiServer
  | ListPodsForDeployment
  | Unknown

definition canonical_phrases :: "(string \<times> intent) list" where
  "canonical_phrases =
     [(''count pods'', CountPods),
      (''list all pods'', ListPods),
      (''check pod status'', CheckPodStatus),
      (''count nodes'', CountNodes),
      (''check API server'', CheckApiServer),
      (''list pods for deployment'', ListPodsForDeployment)]"

definition resolveIntent :: "string \<Rightarrow> intent" where
  "resolveIntent raw =
     (case find (\<lambda>entry. py_in (fst entry) raw) canonical_phrases of
        None \<Rightarrow> Unknown
      | Some entry \<Rightarrow> snd entry)"

fun intent_branch :: "env \<Rightarrow> json \<Rightarrow> intent \<Rightarrow> string io" where
  "intent_branch env query CountPods = branch_count_pods env"
| "intent_branch env query ListPods = branch_list_all_pods env"
| "intent_branch env query CheckPodStatus = branch_check_pod_status env query"
| "intent_branch env query CountNodes = branch_count_nodes env"
| "intent_branch env query CheckApiServer = branch_check_api_server env"
| "intent_branch env query ListPodsForDeployment = branch_list_pods_for_deployment env query"
| "intent_branch env query Unknown = branch_unknown"

text \<open>
  The specification's two extraction rules, read from left to right. A match that starts
  here: the word, at least one whitespace character, for a pod name an optional quote,
  then the longest run of name characters, which is the capture. The first position of
  the text with such a match decides.
\<close>

definition pod_name_here :: "string \<Rightarrow> string option" where
  "pod_name_here s =
     (if startswith s ''named'' then
        (let after = drop 5 s;
             body = dropWhile is_space after;
             src = (if startswith body sq then drop 1 body else body);
             tok = takeWhile is_name_char src
         in if takeWhile is_space after = [] \<or> tok = [] then None else Some tok)
      else None)"

definition deployment_name_here :: "string \<Rightarrow> string option" where
  "deployment_name_here s =
     (if startswith s ''by'' then
        (let after = drop 2 s;
             tok = takeWhile is_name_char (dropWhile is_space after)
         in if takeWhile is_space after = [] \<or> tok = [] then None else Some tok)
      else None)"

fun first_capture :: "(string \<Rightarrow> string option) \<Rightarrow> string \<Rightarrow> string option" where
  "first_capture f [] = f []"
| "first_capture f (c # cs) =
     (case f (c # cs) of Some t \<Rightarrow> Some t | None \<Rightarrow> first_capture f cs)"

text \<open>
  What \<open>get_pods_by_deployment\<close> reports for a deployment name, given the outcome of the
  label query: the deployment name itself when pods were found, a sentence when none was,
  a fixed sentence when the query raised.
\<close>

definition deployment_result :: "string \<Rightarrow> exn + pod list \<Rightarrow> string" where
  "deployment_result name listed =
     (case listed of
        Inr pods \<Rightarrow>
          if pods \<noteq> [] then name
          else ''No pods found for deployment '' @ sq @ name @ sq @ ''.''
      | Inl e \<Rightarrow>
          (case exn_cls e of
             ApiException status \<Rightarrow> ''An error occurred while retrieving pods for the deployment.''
           | _ \<Rightarrow> ''An unexpected error occurred while retrieving pods for the deployment.''))"

section \<open>Concrete environments\<close>

text \<open>
  Environments for the concrete runs below: the completion service answers every prompt
  with \<open>posted\<close>, every pod listing gives \<open>pods_listed\<close>, every pod lookup \<open>pod_read\<close>; the
  cluster has three nodes and its API answers.
\<close>

definition chat_reply :: "string \<Rightarrow> exn + http_response" where
  "chat_reply content =
     Inr \<lparr>status_code = 200, http_error_text = [],
          json_result = Inr (JObj [(''choices'',
            JArr [JObj [(''message'',
              JObj [(''role'', JStr ''assistant''), (''content'', JStr content)])]])])\<rparr>"

definition example_env :: "(exn + http_response) \<Rightarrow> (exn + pod list) \<Rightarrow> (exn + pod) \<Rightarrow> env" where
  "example_env posted pods_listed pod_read =
     \<lparr>requests_post = (\<lambda>prompt. posted),
      list_namespaced_pod = (\<lambda>namespace selector. pods_listed),
      read_namespaced_pod = (\<lambda>name namespace. pod_read),
      list_node = Inr [''node-1'', ''node-2'', ''node-3''],
      get_api_resources = Inr (),
      py_str = (\<lambda>v. ''None''),
      re_type_error = (\<lambda>v. ''expected string or bytes-like object''),
      pydantic_str = (\<lambda>v. None),
      pydantic_error = (\<lambda>v. ''1 validation error for QueryResponse'')\<rparr>"

definition some_pod :: pod where
  "some_pod = \<lparr>metadata_name = ''web-1'', status_phase = Some ''Running''\<rparr>"

definition deployment_pods :: "pod list" where
  "deployment_pods =
     [\<lparr>metadata_name = ''my-deployment-5c689d4b7-x2k9q'', status_phase = Some ''Running''\<rparr>,
      \<lparr>metadata_name = ''my-deployment-5c689d4b7-p8wzn'', status_phase = Some ''Running''\<rparr>]"

definition not_found :: exn where
  "not_found = Exn (ApiException (Some 404)) ''(404) Reason: Not Found''"

definition forbidden :: exn where
  "forbidden = Exn (ApiException (Some 403)) ''(403) Reason: Forbidden''"

definition unreachable :: exn where
  "unreachable = Exn OtherException ''Max retries exceeded''"

definition refused :: exn where
  "refused = Exn OtherException ''Connection refused''"

definition unauthorized :: "exn + http_response" where
  "unauthorized =
     Inr \<lparr>status_code = 401, http_error_text = ''401 Client Error: Unauthorized'',
          json_result = Inr (JObj [(''message'', JStr ''Unauthorized'')])\<rparr>"

definition empty_choices :: "exn + http_response" where
  "empty_choices =
     Inr \<lparr>status_code = 200, http_error_text = [],
          json_result = Inr (JObj [(''id'', JStr ''cmpl-1''), (''choices'', JArr [])])\<rparr>"

definition no_choices_key :: "exn + http_response" where
  "no_choices_key =
     Inr \<lparr>status_code = 200, http_error_text = [],
          json_result = Inr (JObj [(''id'', JStr ''cmpl-1'')])\<rparr>"

section \<open>The matcher against the left-to-right reading\<close>

lemma space_not_name: "is_space c \<Longrightarrow> \<not> is_name_char c"
  by (auto simp: is_space_def is_name_char_def is_word_def is_digit_def Let_def)

lemma space_not_quote: "is_space c \<Longrightarrow> c \<noteq> CHR 0x27"
  by (auto simp: is_space_def)

lemma quote_not_name: "\<not> is_name_char (CHR 0x27)"
  by (simp add: is_name_char_def is_word_def is_digit_def)

text \<open>
  A greedy class repetition gives back nothing when the rest of the pattern cannot start
  with a character of the class, or when the rest of the pattern always succeeds.
\<close>

lemma class_plus_commit:
  assumes "\<And>c cs g. P c \<Longrightarrow> k (c # cs, g) = None"
  shows "class_plus P k (s, g) = (if takeWhile P s = [] then None else k (dropWhile P s, g))"
proof (induction s)
  case Nil
  show ?case by simp
next
  case (Cons c cs)
  show ?case
  proof (cases "P c")
    case False
    then show ?thesis by simp
  next
    case True
    show ?thesis
    proof (cases cs)
      case Nil
      with True show ?thesis by simp
    next
      case (Cons d ds)
      with True Cons.IH assms [of d ds g] show ?thesis
        by (auto split: option.splits)
    qed
  qed
qed

lemma class_plus_total:
  assumes "\<And>st. k st \<noteq> None"
  shows "class_plus P k (s, g) = (if takeWhile P s = [] then None else k (dropWhile P s, g))"
proof (induction s)
  case Nil
  show ?case by simp
next
  case (Cons c cs)
  show ?case
  proof (cases "P c")
    case False
    then show ?thesis by simp
  next
    case True
    show ?thesis
    proof (cases cs)
      case Nil
      with True show ?thesis by simp
    next
      case (Cons d ds)
      with True Cons.IH assms [of "(dropWhile P cs, g)"] show ?thesis
        by (auto split: option.splits)
    qed
  qed
qed

lemma take_takeWhile: "take (length s - length (dropWhile P s)) s = takeWhile P s"
proof -
  have "length s = length (takeWhile P s) + length (dropWhile P s)"
    by (metis length_append takeWhile_dropWhile_id)
  then have "length s - length (dropWhile P s) = length (takeWhile P s)" by simp
  then show ?thesis
    by (metis append_eq_conv_conj takeWhile_dropWhile_id)
qed

lemma first_or_none_findall:
  "first_or_none (findall r s) =
     first_capture (\<lambda>t. map_option (\<lambda>st. group_text (snd st)) (rx_match r Some (t, None))) s"
proof (induction s)
  case Nil
  show ?case
    by (subst findall.simps) (auto simp: first_or_none_def split: option.splits)
next
  case (Cons c cs)
  then show ?case
    by (subst findall.simps) (auto simp: first_or_none_def split: option.splits)
qed

lemma opt_quote_total: "rx_match (Opt (Lit sq)) Some st \<noteq> None"
  by (simp split: option.splits)

lemma name_group:
  assumes "\<And>st. k st \<noteq> None"
  shows "rx_match (Grp (Plus is_name_char)) k (s, g) =
     (if takeWhile is_name_char s = [] then None
      else k (dropWhile is_name_char s, Some (takeWhile is_name_char s)))"
  using assms by (simp add: class_plus_total take_takeWhile)

lemma opt_lit_cat:
  "rx_match (Cat (Opt (Lit p)) r) k (s, g) =
     (case (if startswith s p then rx_match r k (drop (length p) s, g) else None) of
        Some res \<Rightarrow> Some res | None \<Rightarrow> rx_match r k (s, g))"
  by simp

lemma pod_tail:
  "rx_match (Cat (Opt (Lit sq)) (Cat (Grp (Plus is_name_char)) (Opt (Lit sq)))) Some (s, g) =
     (let src = (if startswith s sq then drop 1 s else s); tok = takeWhile is_name_char src
      in if tok = [] then None
         else rx_match (Opt (Lit sq)) Some (dropWhile is_name_char src, Some tok))"
proof -
  define K where "K = rx_match (Cat (Grp (Plus is_name_char)) (Opt (Lit sq))) Some"
  have K: "K (t, h) =
     (if takeWhile is_name_char t = [] then None
      else rx_match (Opt (Lit sq)) Some (dropWhile is_name_char t, Some (takeWhile is_name_char t)))"
    for t h
    unfolding K_def
    using name_group [of "rx_match (Opt (Lit sq)) Some" t h] opt_quote_total by simp
  have unfold: "rx_match (Cat (Opt (Lit sq)) (Cat (Grp (Plus is_name_char)) (Opt (Lit sq)))) Some (s, g) =
      (case (if startswith s sq then K (drop 1 s, g) else None) of
         Some res \<Rightarrow> Some res | None \<Rightarrow> K (s, g))"
    unfolding K_def opt_lit_cat by (simp add: sq_def)
  show ?thesis
  proof (cases s)
    case Nil
    then show ?thesis unfolding unfold K by (simp add: sq_def Let_def)
  next
    case (Cons c cs)
    show ?thesis
    proof (cases "c = CHR 0x27")
      case True
      with Cons quote_not_name show ?thesis
        unfolding unfold K by (simp add: sq_def Let_def split: option.splits)
    next
      case False
      with Cons show ?thesis
        unfolding unfold K by (simp add: sq_def Let_def split: option.splits)
    qed
  qed
qed

lemma pod_match:
  "map_option (\<lambda>st. group_text (snd st)) (rx_match pod_name_rx Some (s, None)) = pod_name_here s"
proof -
  define K where
    "K = rx_match (Cat (Opt (Lit sq)) (Cat (Grp (Plus is_name_char)) (Opt (Lit sq)))) Some"
  have K: "K (t, g) =
     (let src = (if startswith t sq then drop 1 t else t); tok = takeWhile is_name_char src
      in if tok = [] then None
         else rx_match (Opt (Lit sq)) Some (dropWhile is_name_char src, Some tok))" for t g
    unfolding K_def by (rule pod_tail)
  have fail: "K (c # cs, g) = None" if "is_space c" for c cs g
    using that space_not_name [of c] space_not_quote [of c]
    unfolding K by (simp add: sq_def Let_def)
  have "rx_match pod_name_rx Some (s, None) =
      (if startswith s ''named'' then class_plus is_space K (drop 5 s, None) else None)"
    by (simp add: pod_name_rx_def K_def eval_nat_numeral)
  also have "class_plus is_space K (drop 5 s, None) =
      (if takeWhile is_space (drop 5 s) = [] then None
       else K (dropWhile is_space (drop 5 s), None))"
    using fail by (rule class_plus_commit)
  finally show ?thesis
    unfolding K by (auto simp: pod_name_here_def Let_def group_text_def split: option.splits)
qed

lemma deployment_match:
  "map_option (\<lambda>st. group_text (snd st)) (rx_match deployment_name_rx Some (s, None)) =
     deployment_name_here s"
proof -
  define K where "K = rx_match (Grp (Plus is_name_char)) Some"
  have K: "K (t, h) = (if takeWhile is_name_char t = [] then None
      else Some (dropWhile is_name_char t, Some (takeWhile is_name_char t)))" for t h
    unfolding K_def using name_group [of Some t h] by simp
  have fail: "K (c # cs, g) = None" if "is_space c" for c cs g
    using that space_not_name [of c] unfolding K by simp
  have "rx_match deployment_name_rx Some (s, None) =
      (if startswith s ''by'' then class_plus is_space K (drop 2 s, None) else None)"
    by (simp add: deployment_name_rx_def K_def eval_nat_numeral)
  also have "class_plus is_space K (drop 2 s, None) =
      (if takeWhile is_space (drop 2 s) = [] then None
       else K (dropWhile is_space (drop 2 s), None))"
    using fail by (rule class_plus_commit)
  finally show ?thesis
    unfolding K by (auto simp: deployment_name_here_def Let_def group_text_def)
qed

lemma extract_pod_name_str:
  "extract_pod_name env (JStr s) = Inr (first_capture pod_name_here s)"
  by (simp add: extract_pod_name_def re_findall_def first_or_none_findall pod_match)

lemma extract_deployment_name_str:
  "extract_deployment_name env (JStr s) = Inr (first_capture deployment_name_here s)"
  by (simp add: extract_deployment_name_def re_findall_def first_or_none_findall deployment_match)

lemma pod_example:
  "first_capture pod_name_here ''What is the status of the pod named 'example-pod'?'' =
     Some ''example-pod''"
  by (simp add: pod_name_here_def sq_def is_space_def is_name_char_def is_word_def
      is_digit_def Let_def)

lemma deployment_example:
  "first_capture deployment_name_here ''Which pod is spawned by my-deployment?'' =
     Some ''my-deployment''"
  by (simp add: deployment_name_here_def is_space_def is_name_char_def is_word_def
      is_digit_def Let_def)

section \<open>Argument extraction\<close>

text \<open>
  C6. Pod-name extraction on the text of the query returns the capture of the first
  match, from the left, of: the word named, whitespace, an optional quote and a token of
  word characters, digits and hyphens (the closing quote is optional and not captured);
  it returns nothing when no position matches. On the query
  What is the status of the pod named 'example-pod'? it returns example-pod.
\<close>

theorem pod_name_extraction:
  "extract_pod_name env (JStr s) = Inr (first_capture pod_name_here s) \<and>
   extract_pod_name env (JStr ''What is the status of the pod named 'example-pod'?'') =
     Inr (Some ''example-pod'')"
  by (simp only: extract_pod_name_str pod_example)

text \<open>
  C7. Deployment-name extraction on the text of the query returns the capture of the
  first match, from the left, of: the word by, whitespace and a token of word characters,
  digits and hyphens; it returns nothing when no position matches. On the query
  Which pod is spawned by my-deployment? it returns my-deployment.
\<close>

theorem deployment_name_extraction:
  "extract_deployment_name env (JStr s) = Inr (first_capture deployment_name_here s) \<and>
   extract_deployment_name env (JStr ''Which pod is spawned by my-deployment?'') =
     Inr (Some ''my-deployment'')"
  by (simp only: extract_deployment_name_str deployment_example)


section \<open>Running the dispatcher\<close>

lemma dispatch_resolve: "dispatch env query raw = intent_branch env query (resolveIntent raw)"
  by (simp add: dispatch_def resolveIntent_def canonical_phrases_def)

lemma process_query_after_classify:
  assumes "classify env query = (l, Inr raw)"
  shows "process_query env query =
     (l @ fst (intent_branch env query (resolveIntent raw)),
      case snd (intent_branch env query (resolveIntent raw)) of
        Inl e \<Rightarrow> Inr (error_answer e) | Inr a \<Rightarrow> Inr a)"
  using assms
  by (simp add: process_query_def process_query_body_def dispatch_resolve bind_def
      try_except_def ret_def split: prod.splits sum.splits)

lemma body_after_classify:
  assumes "classify env query = (l, Inr raw)"
  shows "snd (process_query_body env query) = snd (intent_branch env query (resolveIntent raw))"
  using assms
  by (simp add: process_query_body_def dispatch_resolve bind_def split: prod.splits)

lemma classify_log:
  "fst (classify env query) =
     [(Post (structured_prompt (py_format env query)),
       case requests_post env (structured_prompt (py_format env query)) of
         Inl e \<Rightarrow> Some e | Inr r \<Rightarrow> None)]"
  by (simp add: classify_def generate_mistral_response_def bind_def remote_def lift_def
      split: prod.splits sum.splits)

lemma classify_no_gateway:
  "classify env query = (l, r) \<Longrightarrow> filter (\<lambda>ev. gateway_call (fst ev)) l = []"
  using classify_log [of env query] by (auto simp: gateway_call_def)

lemma classify_example:
  "classify (example_env (chat_reply content) pods_listed pod_read) (JStr q) =
     ([(Post (structured_prompt q), None)], Inr (strip content))"
  by (simp add: classify_def generate_mistral_response_def bind_def remote_def lift_def
      example_env_def chat_reply_def raise_for_status_def py_format_def)

lemma process_query_returns: "\<exists>a. snd (process_query env query) = Inr a"
  by (auto simp: process_query_def try_except_def ret_def split: prod.splits sum.splits)

lemma process_query_converts:
  "snd (process_query_body env query) = Inl e \<Longrightarrow>
     snd (process_query env query) = Inr (error_answer e)"
  by (auto simp: process_query_def try_except_def ret_def split: prod.splits sum.splits)

lemma classify_raises:
  "snd (classify env query) = Inl e \<Longrightarrow> snd (process_query_body env query) = Inl e"
  by (auto simp: process_query_body_def bind_def split: prod.splits sum.splits)

lemma post_raises:
  "requests_post env (structured_prompt (py_format env query)) = Inl e \<Longrightarrow>
     snd (classify env query) = Inl e"
  by (simp add: classify_def generate_mistral_response_def bind_def remote_def)

text \<open>A capture is never empty, so an extracted name is always truthy.\<close>

lemma first_capture_nonempty:
  assumes "first_capture f s = Some x" and "\<And>t. f t \<noteq> Some []"
  shows "x \<noteq> []"
  using assms by (induction s) (auto split: option.splits)

lemma pod_name_here_nonempty: "pod_name_here t \<noteq> Some []"
  by (simp add: pod_name_here_def Let_def)

lemma deployment_name_here_nonempty: "deployment_name_here t \<noteq> Some []"
  by (simp add: deployment_name_here_def Let_def)

lemma extract_pod_name_nonempty:
  "extract_pod_name env (JStr s) = Inr (Some x) \<Longrightarrow> x \<noteq> []"
  using first_capture_nonempty [of pod_name_here s x] pod_name_here_nonempty
  by (simp add: extract_pod_name_str)

lemma extract_deployment_name_nonempty:
  "extract_deployment_name env (JStr s) = Inr (Some x) \<Longrightarrow> x \<noteq> []"
  using first_capture_nonempty [of deployment_name_here s x] deployment_name_here_nonempty
  by (simp add: extract_deployment_name_str)

lemma check_pod_status_named:
  assumes "extract_pod_name env (JStr s) = Inr (Some x)"
  shows "branch_check_pod_status env (JStr s) =
     bind (get_pod_status env x ''default'') (\<lambda>pod_status.
       ret (''The status of the pod '' @ sq @ x @ sq @ '' is '' @ sq @ str_opt pod_status @ sq @ ''.''))"
  using assms extract_pod_name_nonempty [OF assms]
  by (simp add: branch_check_pod_status_def bind_def lift_def)

lemma get_pod_status_raised:
  assumes "read_namespaced_pod env x ns = Inl e"
  shows "get_pod_status env x ns =
     ([(ReadNamespacedPod x ns, Some e)],
      Inr (Some (case exn_cls e of
         ApiException status \<Rightarrow>
           if status = Some 404 then ''Pod not found.''
           else ''An error occurred while retrieving pod status.''
       | _ \<Rightarrow> ''An unexpected error occurred while retrieving pod status.'')))"
  using assms
  by (simp add: get_pod_status_def try_except_def bind_def remote_def ret_def
      split: exn_class.splits)

lemma list_pods_for_deployment_named:
  assumes "extract_deployment_name env (JStr s) = Inr (Some x)"
  shows "branch_list_pods_for_deployment env (JStr s) =
     bind (get_pods_by_deployment env x ''default'') (\<lambda>pod_names.
       ret (''The pod(s) spawned by deployment '' @ sq @ x @ sq @ '' are: '' @ pod_names))"
  using assms extract_deployment_name_nonempty [OF assms]
  by (simp add: branch_list_pods_for_deployment_def bind_def lift_def)

lemma get_pods_by_deployment_result:
  "get_pods_by_deployment env x ns =
     ([(ListNamespacedPod ns (Some (''app='' @ x)),
        case list_namespaced_pod env ns (Some (''app='' @ x)) of Inl e \<Rightarrow> Some e | Inr pods \<Rightarrow> None)],
      Inr (deployment_result x (list_namespaced_pod env ns (Some (''app='' @ x)))))"
  by (simp add: get_pods_by_deployment_def deployment_result_def try_except_def bind_def
      remote_def ret_def split: sum.splits exn_class.splits)

section \<open>Intent resolution\<close>

text \<open>
  C1. For every raw classifier text the dispatcher runs the branch of the first canonical
  phrase the text contains, in the order count pods, list all pods, check pod status,
  count nodes, check API server, list pods for deployment. A text with count nodes never
  resolves to CheckApiServer, and a text with both count nodes and check API server (and
  none of the three earlier phrases) resolves to CountNodes. With no phrase the intent is
  Unknown and the answer is the fixed apology, after the classifier's call only.
\<close>

theorem intent_priority:
  "process_query env query =
     try_except (bind (classify env query) (\<lambda>raw. intent_branch env query (resolveIntent raw)))
       (\<lambda>e. ret (error_answer e)) \<and>
   (py_in ''count nodes'' raw \<longrightarrow> resolveIntent raw \<noteq> CheckApiServer) \<and>
   (py_in ''count nodes'' raw \<and> py_in ''check API server'' raw \<and> \<not> py_in ''count pods'' raw \<and>
    \<not> py_in ''list all pods'' raw \<and> \<not> py_in ''check pod status'' raw \<longrightarrow>
      resolveIntent raw = CountNodes) \<and>
   (classify env query = (l, Inr raw) \<and> resolveIntent raw = Unknown \<longrightarrow>
      process_query env query =
        (l, Inr ''I'm sorry, I couldn't determine the action for this query.''))"
proof -
  have "dispatch env query = (\<lambda>raw. intent_branch env query (resolveIntent raw))"
    by (rule ext) (rule dispatch_resolve)
  then have "process_query env query =
     try_except (bind (classify env query) (\<lambda>raw. intent_branch env query (resolveIntent raw)))
       (\<lambda>e. ret (error_answer e))"
    by (simp add: process_query_def process_query_body_def)
  moreover have "py_in ''count nodes'' raw \<longrightarrow> resolveIntent raw \<noteq> CheckApiServer"
    by (simp add: resolveIntent_def canonical_phrases_def)
  moreover have "py_in ''count nodes'' raw \<and> py_in ''check API server'' raw \<and>
      \<not> py_in ''count pods'' raw \<and> \<not> py_in ''list all pods'' raw \<and>
      \<not> py_in ''check pod status'' raw \<longrightarrow> resolveIntent raw = CountNodes"
    by (simp add: resolveIntent_def canonical_phrases_def)
  moreover have "classify env query = (l, Inr raw) \<and> resolveIntent raw = Unknown \<longrightarrow>
      process_query env query =
        (l, Inr ''I'm sorry, I couldn't determine the action for this query.'')"
    by (auto simp: process_query_after_classify branch_unknown_def ret_def)
  ultimately show ?thesis by blast
qed

text \<open>
  A text with both phrases resolves to CountNodes; a reply without any phrase gives the
  apology.
\<close>

theorem intent_priority_witness:
  "resolveIntent ''count nodes, or check API server'' = CountNodes \<and>
   resolveIntent ''count pods, count nodes'' \<noteq> CheckApiServer \<and>
   process_query (example_env (chat_reply ''no idea'') (Inr []) (Inr some_pod)) (JStr ''Hello'') =
     ([(Post (structured_prompt ''Hello''), None)],
      Inr ''I'm sorry, I couldn't determine the action for this query.'')"
proof -
  let ?env = "example_env (chat_reply ''no idea'') (Inr []) (Inr some_pod)"
  have c: "classify ?env (JStr ''Hello'') =
      ([(Post (structured_prompt ''Hello''), None)], Inr ''no idea'')"
    by (simp add: classify_example strip_def is_space_def)
  have u: "resolveIntent ''no idea'' = Unknown"
    by (simp add: resolveIntent_def canonical_phrases_def)
  have n: "py_in ''count nodes'' ''count nodes, or check API server'' \<and>
      py_in ''check API server'' ''count nodes, or check API server'' \<and>
      \<not> py_in ''count pods'' ''count nodes, or check API server'' \<and>
      \<not> py_in ''list all pods'' ''count nodes, or check API server'' \<and>
      \<not> py_in ''check pod status'' ''count nodes, or check API server''"
    by simp
  from intent_priority [of ?env "JStr ''Hello''" "''count nodes, or check API server''"] n
  have "resolveIntent ''count nodes, or check API server'' = CountNodes" by blast
  moreover
  have "py_in ''count nodes'' ''count pods, count nodes''" by simp
  with intent_priority [of ?env "JStr ''Hello''" "''count pods, count nodes''"]
  have "resolveIntent ''count pods, count nodes'' \<noteq> CheckApiServer" by blast
  moreover
  from intent_priority [of ?env "JStr ''Hello''" "''no idea''"
      "[(Post (structured_prompt ''Hello''), None)]"] c u
  have "process_query ?env (JStr ''Hello'') =
     ([(Post (structured_prompt ''Hello''), None)],
      Inr ''I'm sorry, I couldn't determine the action for this query.'')" by blast
  ultimately show ?thesis by blast
qed

section \<open>Missing arguments\<close>

text \<open>
  C3. When the classifier's text resolves to CheckPodStatus and no pod name can be
  extracted from the query text, the dispatcher returns Invalid pod name format in query.;
  when it resolves to ListPodsForDeployment and no deployment name can be extracted, it
  returns Invalid deployment name format in query. In both cases the calls made are the
  classifier's alone, and none of them is a gateway call.
\<close>

theorem missing_argument_no_gateway_call:
  assumes "classify env (JStr s) = (l, Inr raw)"
  shows "(resolveIntent raw = CheckPodStatus \<and> extract_pod_name env (JStr s) = Inr None \<longrightarrow>
            process_query env (JStr s) = (l, Inr ''Invalid pod name format in query.'')) \<and>
         (resolveIntent raw = ListPodsForDeployment \<and>
          extract_deployment_name env (JStr s) = Inr None \<longrightarrow>
            process_query env (JStr s) = (l, Inr ''Invalid deployment name format in query.'')) \<and>
         filter (\<lambda>ev. gateway_call (fst ev)) l = []"
  using assms classify_no_gateway [OF assms]
  by (auto simp: process_query_after_classify branch_check_pod_status_def
      branch_list_pods_for_deployment_def bind_def lift_def ret_def)

theorem missing_argument_no_gateway_call_witness:
  "process_query (example_env (chat_reply ''check pod status'') (Inr [some_pod]) (Inr some_pod))
       (JStr ''What is the status of my pod?'') =
     ([(Post (structured_prompt ''What is the status of my pod?''), None)],
      Inr ''Invalid pod name format in query.'') \<and>
   process_query (example_env (chat_reply ''list pods for deployment'') (Inr [some_pod]) (Inr some_pod))
       (JStr ''Which pods does my-deployment own?'') =
     ([(Post (structured_prompt ''Which pods does my-deployment own?''), None)],
      Inr ''Invalid deployment name format in query.'')"
proof -
  let ?e1 = "example_env (chat_reply ''check pod status'') (Inr [some_pod]) (Inr some_pod)"
  let ?e2 = "example_env (chat_reply ''list pods for deployment'') (Inr [some_pod]) (Inr some_pod)"
  let ?q1 = "''What is the status of my pod?''"
  let ?q2 = "''Which pods does my-deployment own?''"
  have c1: "classify ?e1 (JStr ?q1) =
      ([(Post (structured_prompt ?q1), None)], Inr ''check pod status'')"
    by (simp add: classify_example strip_def is_space_def)
  have c2: "classify ?e2 (JStr ?q2) =
      ([(Post (structured_prompt ?q2), None)], Inr ''list pods for deployment'')"
    by (simp add: classify_example strip_def is_space_def)
  have r1: "resolveIntent ''check pod status'' = CheckPodStatus"
    by (simp add: resolveIntent_def canonical_phrases_def)
  have r2: "resolveIntent ''list pods for deployment'' = ListPodsForDeployment"
    by (simp add: resolveIntent_def canonical_phrases_def)
  have x1: "extract_pod_name ?e1 (JStr ?q1) = Inr None"
    by (simp add: extract_pod_name_str pod_name_here_def)
  have x2: "extract_deployment_name ?e2 (JStr ?q2) = Inr None"
    by (simp add: extract_deployment_name_str deployment_name_here_def)
  from missing_argument_no_gateway_call [OF c1] r1 x1
  have "process_query ?e1 (JStr ?q1) =
      ([(Post (structured_prompt ?q1), None)], Inr ''Invalid pod name format in query.'')"
    by blast
  moreover from missing_argument_no_gateway_call [OF c2] r2 x2
  have "process_query ?e2 (JStr ?q2) =
      ([(Post (structured_prompt ?q2), None)], Inr ''Invalid deployment name format in query.'')"
    by blast
  ultimately show ?thesis by blast
qed

section \<open>Pod status\<close>

text \<open>
  C4. For a query that resolves to CheckPodStatus with extracted pod name x, when the
  pod lookup raises an ApiException of status 404 the answer is exactly
  The status of the pod 'x' is 'Pod not found.'. : the helper's not-found sentence stands
  where the phase would.
\<close>

theorem pod_not_found_answer:
  assumes "classify env (JStr s) = (l, Inr raw)"
    and "resolveIntent raw = CheckPodStatus"
    and "extract_pod_name env (JStr s) = Inr (Some x)"
    and "read_namespaced_pod env x ''default'' = Inl e"
    and "exn_cls e = ApiException (Some 404)"
  shows "process_query env (JStr s) =
     (l @ [(ReadNamespacedPod x ''default'', Some e)],
      Inr (''The status of the pod '' @ sq @ x @ sq @ '' is 'Pod not found.'.''))"
  using assms
  by (simp add: process_query_after_classify check_pod_status_named get_pod_status_raised
      bind_def ret_def str_opt_def sq_def)

theorem pod_not_found_answer_witness:
  "snd (process_query (example_env (chat_reply ''check pod status'') (Inr []) (Inl not_found))
       (JStr ''What is the status of the pod named 'x'?'')) =
     Inr ''The status of the pod 'x' is 'Pod not found.'.''"
proof -
  let ?e = "example_env (chat_reply ''check pod status'') (Inr []) (Inl not_found)"
  let ?q = "''What is the status of the pod named 'x'?''"
  have c: "classify ?e (JStr ?q) =
      ([(Post (structured_prompt ?q), None)], Inr ''check pod status'')"
    by (simp add: classify_example strip_def is_space_def)
  have r: "resolveIntent ''check pod status'' = CheckPodStatus"
    by (simp add: resolveIntent_def canonical_phrases_def)
  have x: "extract_pod_name ?e (JStr ?q) = Inr (Some ''x'')"
    by (simp add: extract_pod_name_str pod_name_here_def sq_def is_space_def is_name_char_def
        is_word_def is_digit_def Let_def)
  have g: "read_namespaced_pod ?e ''x'' ''default'' = Inl not_found"
    by (simp add: example_env_def)
  have k: "exn_cls not_found = ApiException (Some 404)"
    by (simp add: not_found_def)
  show ?thesis
    using pod_not_found_answer [OF c r x g k] by (simp add: sq_def)
qed

text \<open>
  C10. For a query that resolves to CheckPodStatus with extracted pod name x, when the
  pod lookup raises anything but an ApiException of status 404, the body of the
  dispatcher's try returns normally (nothing reaches its handler) and the answer is
  The status of the pod 'x' is 'An error occurred while retrieving pod status.'. for an
  ApiException, the same with An unexpected error occurred for any other exception;
  it is not the dispatcher's generic error answer.
\<close>

theorem pod_status_failure_absorbed:
  assumes "classify env (JStr s) = (l, Inr raw)"
    and "resolveIntent raw = CheckPodStatus"
    and "extract_pod_name env (JStr s) = Inr (Some x)"
    and "read_namespaced_pod env x ''default'' = Inl e"
    and "exn_cls e \<noteq> ApiException (Some 404)"
  shows "process_query_body env (JStr s) = process_query env (JStr s) \<and>
     process_query env (JStr s) =
       (l @ [(ReadNamespacedPod x ''default'', Some e)],
        Inr (''The status of the pod '' @ sq @ x @ sq @ '' is '' @ sq @
          (case exn_cls e of
             ApiException status \<Rightarrow> ''An error occurred while retrieving pod status.''
           | _ \<Rightarrow> ''An unexpected error occurred while retrieving pod status.'') @ sq @ ''.'')) \<and>
     snd (process_query env (JStr s)) \<noteq> Inr (error_answer e)"
proof -
  have b: "process_query_body env (JStr s) =
       (l @ [(ReadNamespacedPod x ''default'', Some e)],
        Inr (''The status of the pod '' @ sq @ x @ sq @ '' is '' @ sq @
          (case exn_cls e of
             ApiException status \<Rightarrow> ''An error occurred while retrieving pod status.''
           | _ \<Rightarrow> ''An unexpected error occurred while retrieving pod status.'') @ sq @ ''.''))"
    using assms
    by (simp add: process_query_body_def dispatch_resolve check_pod_status_named
        get_pod_status_raised bind_def ret_def str_opt_def split: exn_class.splits)
  then have p: "process_query env (JStr s) = process_query_body env (JStr s)"
    by (simp add: process_query_def try_except_def)
  have "snd (process_query env (JStr s)) \<noteq> Inr (error_answer e)"
    unfolding p b by (simp add: error_answer_def)
  with b p show ?thesis by simp
qed

theorem pod_status_failure_absorbed_witness:
  "snd (process_query (example_env (chat_reply ''check pod status'') (Inr []) (Inl forbidden))
       (JStr ''What is the status of the pod named 'x'?'')) =
     Inr ''The status of the pod 'x' is 'An error occurred while retrieving pod status.'.'' \<and>
   snd (process_query (example_env (chat_reply ''check pod status'') (Inr []) (Inl unreachable))
       (JStr ''What is the status of the pod named 'x'?'')) =
     Inr ''The status of the pod 'x' is 'An unexpected error occurred while retrieving pod status.'.''"
proof -
  let ?e1 = "example_env (chat_reply ''check pod status'') (Inr []) (Inl forbidden)"
  let ?e2 = "example_env (chat_reply ''check pod status'') (Inr []) (Inl unreachable)"
  let ?q = "''What is the status of the pod named 'x'?''"
  have c: "classify (example_env (chat_reply ''check pod status'') (Inr []) r) (JStr ?q) =
      ([(Post (structured_prompt ?q), None)], Inr ''check pod status'')" for r
    by (simp add: classify_example strip_def is_space_def)
  have r: "resolveIntent ''check pod status'' = CheckPodStatus"
    by (simp add: resolveIntent_def canonical_phrases_def)
  have x: "extract_pod_name env (JStr ?q) = Inr (Some ''x'')" for env
    by (simp add: extract_pod_name_str pod_name_here_def sq_def is_space_def is_name_char_def
        is_word_def is_digit_def Let_def)
  have g1: "read_namespaced_pod ?e1 ''x'' ''default'' = Inl forbidden"
    by (simp add: example_env_def)
  have g2: "read_namespaced_pod ?e2 ''x'' ''default'' = Inl unreachable"
    by (simp add: example_env_def)
  have k1: "exn_cls forbidden \<noteq> ApiException (Some 404)"
    by (simp add: forbidden_def)
  have k2: "exn_cls unreachable \<noteq> ApiException (Some 404)"
    by (simp add: unreachable_def)
  show ?thesis
    using pod_status_failure_absorbed [OF c r x g1 k1] pod_status_failure_absorbed [OF c r x g2 k2]
    by (simp add: sq_def forbidden_def unreachable_def)
qed

section \<open>Pods of a deployment\<close>

text \<open>
  C5, as the code has it. For a query that resolves to ListPodsForDeployment with extracted
  deployment name n, the dispatcher makes one gateway call, the pod listing of the default
  namespace with label selector app=n, and returns
  The pod(s) spawned by deployment 'n' are: r, where r is the deployment name n itself
  when the listing found a pod, No pods found for deployment 'n'. when it found none, and
  a fixed sentence when the listing raised.
\<close>

theorem deployment_answer:
  assumes "classify env (JStr s) = (l, Inr raw)"
    and "resolveIntent raw = ListPodsForDeployment"
    and "extract_deployment_name env (JStr s) = Inr (Some name)"
  shows "process_query env (JStr s) =
     (l @ [(ListNamespacedPod ''default'' (Some (''app='' @ name)),
            case list_namespaced_pod env ''default'' (Some (''app='' @ name)) of
              Inl e \<Rightarrow> Some e | Inr pods \<Rightarrow> None)],
      Inr (''The pod(s) spawned by deployment '' @ sq @ name @ sq @ '' are: '' @
           deployment_result name (list_namespaced_pod env ''default'' (Some (''app='' @ name)))))"
  using assms
  by (simp add: process_query_after_classify list_pods_for_deployment_named
      get_pods_by_deployment_result bind_def ret_def)

theorem deployment_answer_witness:
  "process_query (example_env (chat_reply ''list pods for deployment'') (Inr []) (Inr some_pod))
       (JStr ''Which pod is spawned by my-deployment?'') =
     ([(Post (structured_prompt ''Which pod is spawned by my-deployment?''), None),
       (ListNamespacedPod ''default'' (Some ''app=my-deployment''), None)],
      Inr ''The pod(s) spawned by deployment 'my-deployment' are: No pods found for deployment 'my-deployment'.'') \<and>
   process_query (example_env (chat_reply ''list pods for deployment'') (Inr [some_pod]) (Inr some_pod))
       (JStr ''Which pod is spawned by my-deployment?'') =
     ([(Post (structured_prompt ''Which pod is spawned by my-deployment?''), None),
       (ListNamespacedPod ''default'' (Some ''app=my-deployment''), None)],
      Inr ''The pod(s) spawned by deployment 'my-deployment' are: my-deployment'')"
proof -
  let ?q = "''Which pod is spawned by my-deployment?''"
  have c: "classify (example_env (chat_reply ''list pods for deployment'') p (Inr some_pod)) (JStr ?q) =
      ([(Post (structured_prompt ?q), None)], Inr ''list pods for deployment'')" for p
    by (simp add: classify_example strip_def is_space_def)
  have r: "resolveIntent ''list pods for deployment'' = ListPodsForDeployment"
    by (simp add: resolveIntent_def canonical_phrases_def)
  have x: "extract_deployment_name env (JStr ?q) = Inr (Some ''my-deployment'')" for env
    by (simp only: extract_deployment_name_str deployment_example)
  have g: "list_namespaced_pod (example_env a p b) ''default'' (Some ''app=my-deployment'') = p"
    for a p b
    by (simp add: example_env_def)
  show ?thesis
    using deployment_answer [OF c r x, of "Inr []"] deployment_answer [OF c r x, of "Inr [some_pod]"]
    by (simp add: g deployment_result_def sq_def)
qed

lemma deployment_example_run:
  "process_query (example_env (chat_reply ''list pods for deployment'') (Inr deployment_pods) (Inr some_pod))
       (JStr ''Which pod is spawned by my-deployment?'') =
     ([(Post (structured_prompt ''Which pod is spawned by my-deployment?''), None),
       (ListNamespacedPod ''default'' (Some ''app=my-deployment''), None)],
      Inr ''The pod(s) spawned by deployment 'my-deployment' are: my-deployment'')"
proof -
  let ?e = "example_env (chat_reply ''list pods for deployment'') (Inr deployment_pods) (Inr some_pod)"
  let ?q = "''Which pod is spawned by my-deployment?''"
  have c: "classify ?e (JStr ?q) =
      ([(Post (structured_prompt ?q), None)], Inr ''list pods for deployment'')"
    by (simp add: classify_example strip_def is_space_def)
  have r: "resolveIntent ''list pods for deployment'' = ListPodsForDeployment"
    by (simp add: resolveIntent_def canonical_phrases_def)
  have x: "extract_deployment_name ?e (JStr ?q) = Inr (Some ''my-deployment'')"
    by (simp only: extract_deployment_name_str deployment_example)
  have g: "list_namespaced_pod ?e ''default'' (Some ''app=my-deployment'') = Inr deployment_pods"
    by (simp add: example_env_def)
  show ?thesis
    using c r x g
    by (simp add: process_query_after_classify list_pods_for_deployment_named
        get_pods_by_deployment_result bind_def ret_def deployment_result_def
        deployment_pods_def sq_def)
qed

text \<open>
  C5 as stated fails: the label query finds two pods of my-deployment, and the answer
  names the deployment, not the pods found; neither pod's name occurs in it.
\<close>

theorem deployment_answer_names_no_pod:
  "list_namespaced_pod
       (example_env (chat_reply ''list pods for deployment'') (Inr deployment_pods) (Inr some_pod))
       ''default'' (Some ''app=my-deployment'') = Inr deployment_pods \<and>
   map metadata_name deployment_pods =
     [''my-deployment-5c689d4b7-x2k9q'', ''my-deployment-5c689d4b7-p8wzn''] \<and>
   snd (process_query
       (example_env (chat_reply ''list pods for deployment'') (Inr deployment_pods) (Inr some_pod))
       (JStr ''Which pod is spawned by my-deployment?'')) =
     Inr ''The pod(s) spawned by deployment 'my-deployment' are: my-deployment'' \<and>
   \<not> py_in ''my-deployment-5c689d4b7-x2k9q''
       ''The pod(s) spawned by deployment 'my-deployment' are: my-deployment'' \<and>
   \<not> py_in ''my-deployment-5c689d4b7-p8wzn''
       ''The pod(s) spawned by deployment 'my-deployment' are: my-deployment''"
  by (simp add: deployment_example_run) (simp add: example_env_def deployment_pods_def)

section \<open>Failures\<close>

text \<open>
  C2, as the code has it. The dispatcher never raises. Every exception that leaves the
  body of its try is turned into the answer
  An error occurred while processing your query: followed by the exception's text: a
  failure of the completion service or of reading its reply, a failure of the extraction,
  and a failure of the pod listing or of the node listing behind the count pods,
  list all pods and count nodes branches. The pod-status, pods-by-deployment and API-probe
  helpers never raise: they catch what the cluster API raises and return a string.
\<close>

theorem failures_become_answers:
  "(\<exists>a. snd (process_query env query) = Inr a) \<and>
   (snd (process_query_body env query) = Inl e \<longrightarrow>
      snd (process_query env query) = Inr (error_answer e)) \<and>
   (requests_post env (structured_prompt (py_format env query)) = Inl e \<or>
    snd (classify env query) = Inl e \<longrightarrow>
      snd (process_query env query) = Inr (error_answer e)) \<and>
   (classify env query = (l, Inr raw) \<and>
    (resolveIntent raw = CheckPodStatus \<and> extract_pod_name env query = Inl e \<or>
     resolveIntent raw = ListPodsForDeployment \<and> extract_deployment_name env query = Inl e \<or>
     (resolveIntent raw = CountPods \<or> resolveIntent raw = ListPods) \<and>
       list_namespaced_pod env ''default'' None = Inl e \<or>
     resolveIntent raw = CountNodes \<and> list_node env = Inl e) \<longrightarrow>
      snd (process_query env query) = Inr (error_answer e)) \<and>
   (\<exists>status. snd (get_pod_status env name namespace) = Inr status) \<and>
   (\<exists>result. snd (get_pods_by_deployment env name namespace) = Inr result) \<and>
   (\<exists>yes_no. snd (is_api_server_accessible env) = Inr yes_no)"
proof -
  have h1: "\<exists>status. snd (get_pod_status env name namespace) = Inr status"
    by (simp add: get_pod_status_def try_except_def bind_def remote_def ret_def
        split: sum.splits exn_class.splits)
  have h2: "\<exists>result. snd (get_pods_by_deployment env name namespace) = Inr result"
    by (simp add: get_pods_by_deployment_result)
  have h3: "\<exists>yes_no. snd (is_api_server_accessible env) = Inr yes_no"
    by (simp add: is_api_server_accessible_def try_except_def bind_def remote_def ret_def
        split: sum.splits)
  have a: "\<exists>a. snd (process_query env query) = Inr a"
    by (rule process_query_returns)
  have b: "snd (process_query_body env query) = Inl e \<longrightarrow>
      snd (process_query env query) = Inr (error_answer e)"
    by (simp add: process_query_converts)
  have c: "requests_post env (structured_prompt (py_format env query)) = Inl e \<or>
      snd (classify env query) = Inl e \<longrightarrow>
      snd (process_query env query) = Inr (error_answer e)"
    using post_raises [of env query e] classify_raises [of env query e]
      process_query_converts [of env query e] by blast
  have d: "snd (process_query env query) = Inr (error_answer e)"
    if cl: "classify env query = (l, Inr raw)"
      and br: "resolveIntent raw = CheckPodStatus \<and> extract_pod_name env query = Inl e \<or>
       resolveIntent raw = ListPodsForDeployment \<and> extract_deployment_name env query = Inl e \<or>
       (resolveIntent raw = CountPods \<or> resolveIntent raw = ListPods) \<and>
         list_namespaced_pod env ''default'' None = Inl e \<or>
       resolveIntent raw = CountNodes \<and> list_node env = Inl e"
  proof -
    from br have "snd (intent_branch env query (resolveIntent raw)) = Inl e"
      by (auto simp: branch_check_pod_status_def branch_list_pods_for_deployment_def
          branch_count_pods_def branch_list_all_pods_def branch_count_nodes_def get_pods_def
          get_node_count_def bind_def lift_def remote_def)
    then have "snd (process_query_body env query) = Inl e"
      by (simp add: body_after_classify [OF cl])
    then show ?thesis by (rule process_query_converts)
  qed
  from a b c d h1 h2 h3 show ?thesis by blast
qed

text \<open>
  A refused connection, a 401 reply, a forbidden pod listing and a query that is not a
  string each end in the prefixed answer.
\<close>

theorem failures_become_answers_witness:
  "snd (process_query (example_env (Inl refused) (Inr []) (Inr some_pod)) (JStr ''How many pods?'')) =
     Inr ''An error occurred while processing your query: Connection refused'' \<and>
   snd (process_query (example_env unauthorized (Inr []) (Inr some_pod)) (JStr ''How many pods?'')) =
     Inr ''An error occurred while processing your query: 401 Client Error: Unauthorized'' \<and>
   snd (process_query (example_env (chat_reply ''count pods'') (Inl forbidden) (Inr some_pod))
       (JStr ''How many pods?'')) =
     Inr ''An error occurred while processing your query: (403) Reason: Forbidden'' \<and>
   snd (process_query (example_env (chat_reply ''check pod status'') (Inr []) (Inr some_pod)) JNull) =
     Inr ''An error occurred while processing your query: expected string or bytes-like object'' \<and>
   snd (process_query
       (example_env (chat_reply ''list pods for deployment'') (Inr []) (Inr some_pod)) JNull) =
     Inr ''An error occurred while processing your query: expected string or bytes-like object'' \<and>
   snd (process_query
       ((example_env (chat_reply ''count nodes'') (Inr []) (Inr some_pod))\<lparr>list_node := Inl unreachable\<rparr>)
       (JStr ''How many nodes?'')) =
     Inr ''An error occurred while processing your query: Max retries exceeded''"
proof -
  let ?e5 = "example_env (chat_reply ''list pods for deployment'') (Inr []) (Inr some_pod)"
  let ?e6 = "(example_env (chat_reply ''count nodes'') (Inr []) (Inr some_pod))\<lparr>list_node := Inl unreachable\<rparr>"
  let ?q6 = "JStr ''How many nodes?''"
  let ?q = "JStr ''How many pods?''"
  let ?e1 = "example_env (Inl refused) (Inr []) (Inr some_pod)"
  let ?e2 = "example_env unauthorized (Inr []) (Inr some_pod)"
  let ?e3 = "example_env (chat_reply ''count pods'') (Inl forbidden) (Inr some_pod)"
  let ?e4 = "example_env (chat_reply ''check pod status'') (Inr []) (Inr some_pod)"
  let ?t = "Exn TypeError ''expected string or bytes-like object''"
  let ?h = "Exn HTTPError ''401 Client Error: Unauthorized''"
  have h1: "requests_post ?e1 (structured_prompt (py_format ?e1 ?q)) = Inl refused"
    by (simp add: example_env_def)
  have h2: "snd (classify ?e2 ?q) = Inl ?h"
    by (simp add: classify_def generate_mistral_response_def bind_def remote_def lift_def
        example_env_def unauthorized_def raise_for_status_def)
  have c3: "classify ?e3 ?q =
      ([(Post (structured_prompt ''How many pods?''), None)], Inr ''count pods'')"
    by (simp add: classify_example strip_def is_space_def)
  have r3: "resolveIntent ''count pods'' = CountPods"
    by (simp add: resolveIntent_def canonical_phrases_def)
  have g3: "list_namespaced_pod ?e3 ''default'' None = Inl forbidden"
    by (simp add: example_env_def)
  have c4: "classify ?e4 JNull =
      ([(Post (structured_prompt ''None''), None)], Inr ''check pod status'')"
    by (simp add: classify_def generate_mistral_response_def bind_def remote_def lift_def
        example_env_def chat_reply_def raise_for_status_def py_format_def strip_def is_space_def)
  have r4: "resolveIntent ''check pod status'' = CheckPodStatus"
    by (simp add: resolveIntent_def canonical_phrases_def)
  have x4: "extract_pod_name ?e4 JNull = Inl ?t"
    by (simp add: extract_pod_name_def re_findall_def example_env_def)
  have c5: "classify ?e5 JNull =
      ([(Post (structured_prompt ''None''), None)], Inr ''list pods for deployment'')"
    by (simp add: classify_def generate_mistral_response_def bind_def remote_def lift_def
        example_env_def chat_reply_def raise_for_status_def py_format_def strip_def is_space_def)
  have r5: "resolveIntent ''list pods for deployment'' = ListPodsForDeployment"
    by (simp add: resolveIntent_def canonical_phrases_def)
  have x5: "extract_deployment_name ?e5 JNull = Inl ?t"
    by (simp add: extract_deployment_name_def re_findall_def example_env_def)
  have c6: "classify ?e6 ?q6 =
      ([(Post (structured_prompt ''How many nodes?''), None)], Inr ''count nodes'')"
    by (simp add: classify_def generate_mistral_response_def bind_def remote_def lift_def
        example_env_def chat_reply_def raise_for_status_def py_format_def strip_def is_space_def)
  have r6: "resolveIntent ''count nodes'' = CountNodes"
    by (simp add: resolveIntent_def canonical_phrases_def)
  have g6: "list_node ?e6 = Inl unreachable"
    by simp
  from failures_become_answers [of ?e5 JNull ?t _ "''list pods for deployment''"] c5 r5 x5
  have 5: "snd (process_query ?e5 JNull) = Inr (error_answer ?t)" by blast
  from failures_become_answers [of ?e6 ?q6 unreachable _ "''count nodes''"] c6 r6 g6
  have 6: "snd (process_query ?e6 ?q6) = Inr (error_answer unreachable)" by blast
  from failures_become_answers [of ?e1 ?q refused] h1
  have 1: "snd (process_query ?e1 ?q) = Inr (error_answer refused)" by blast
  from failures_become_answers [of ?e2 ?q ?h] h2
  have 2: "snd (process_query ?e2 ?q) = Inr (error_answer ?h)" by blast
  from failures_become_answers [of ?e3 ?q forbidden _ "''count pods''"] c3 r3 g3
  have 3: "snd (process_query ?e3 ?q) = Inr (error_answer forbidden)" by blast
  from failures_become_answers [of ?e4 JNull ?t _ "''check pod status''"] c4 r4 x4
  have 4: "snd (process_query ?e4 JNull) = Inr (error_answer ?t)" by blast
  from 1 2 3 4 5 6 show ?thesis
    by (simp add: error_answer_def refused_def forbidden_def unreachable_def)
qed

text \<open>
  C2 as stated fails: the pod lookup raises a 403 ApiException in the middle of the
  chain (the call and its exception are in the log), and the answer is the pod-status
  sentence with the helper's own error text, not the prefixed answer with the detail.
\<close>

theorem gateway_failure_not_converted:
  "(ReadNamespacedPod ''x'' ''default'', Some forbidden) \<in>
     set (fst (process_query (example_env (chat_reply ''check pod status'') (Inr []) (Inl forbidden))
       (JStr ''What is the status of the pod named 'x'?''))) \<and>
   snd (process_query (example_env (chat_reply ''check pod status'') (Inr []) (Inl forbidden))
       (JStr ''What is the status of the pod named 'x'?'')) =
     Inr ''The status of the pod 'x' is 'An error occurred while retrieving pod status.'.'' \<and>
   snd (process_query (example_env (chat_reply ''check pod status'') (Inr []) (Inl forbidden))
       (JStr ''What is the status of the pod named 'x'?'')) \<noteq> Inr (error_answer forbidden)"
proof -
  let ?e = "example_env (chat_reply ''check pod status'') (Inr []) (Inl forbidden)"
  let ?q = "''What is the status of the pod named 'x'?''"
  have c: "classify ?e (JStr ?q) =
      ([(Post (structured_prompt ?q), None)], Inr ''check pod status'')"
    by (simp add: classify_example strip_def is_space_def)
  have r: "resolveIntent ''check pod status'' = CheckPodStatus"
    by (simp add: resolveIntent_def canonical_phrases_def)
  have x: "extract_pod_name ?e (JStr ?q) = Inr (Some ''x'')"
    by (simp add: extract_pod_name_str pod_name_here_def sq_def is_space_def is_name_char_def
        is_word_def is_digit_def Let_def)
  have g: "read_namespaced_pod ?e ''x'' ''default'' = Inl forbidden"
    by (simp add: example_env_def)
  have "process_query ?e (JStr ?q) =
      ([(Post (structured_prompt ?q), None), (ReadNamespacedPod ''x'' ''default'', Some forbidden)],
       Inr ''The status of the pod 'x' is 'An error occurred while retrieving pod status.'.'')"
    using c r x g
    by (simp add: process_query_after_classify check_pod_status_named get_pod_status_raised
        bind_def ret_def str_opt_def sq_def forbidden_def)
  then show ?thesis
    by (simp add: error_answer_def)
qed

section \<open>The classifier's reading of the reply\<close>

text \<open>
  C8, at the failing input. A reply without the choices key gives the empty string, as
  the defaults of the three \<open>get\<close> calls intend. A reply whose choices list is empty
  makes \<open>[0]\<close> raise an IndexError: the classifier fails, and the dispatcher answers
  An error occurred while processing your query: list index out of range.
\<close>

theorem empty_choices_raises:
  "generate_mistral_response (example_env no_choices_key (Inr []) (Inr some_pod)) prompt =
     ([(Post prompt, None)], Inr []) \<and>
   generate_mistral_response (example_env empty_choices (Inr []) (Inr some_pod)) prompt =
     ([(Post prompt, None)], Inl (Exn IndexError ''list index out of range'')) \<and>
   snd (process_query (example_env empty_choices (Inr []) (Inr some_pod)) (JStr ''How many pods?'')) =
     Inr ''An error occurred while processing your query: list index out of range''"
  by (simp add: process_query_def process_query_body_def classify_def
      generate_mistral_response_def bind_def remote_def lift_def try_except_def ret_def
      example_env_def empty_choices_def no_choices_key_def raise_for_status_def
      error_answer_def strip_def)

section \<open>The endpoint's reply to a body without a query\<close>

text \<open>
  A body that is JSON but not an object has no \<open>get\<close>: the \<open>AttributeError\<close> falls to
  the last handler and the reply is a 500.
\<close>

lemma non_object_body_is_server_error:
  "snd (create_query env (Inr (JArr xs))) =
     Inr (Reply 500 (UnexpectedError ''An unexpected error occurred.''))"
  by (simp add: create_query_def bind_def lift_def try_except_def ret_def no_attribute_def)

text \<open>
  C9, as the code has it. For every inbound request whose JSON body is an object without
  the key query, the endpoint replies with status 400 and the validation errors, never
  with status 500: the query is \<open>None\<close>, the dispatcher returns some answer, and the
  response model refuses the query.
\<close>

theorem missing_query_is_client_error:
  assumes "map_of kvs ''query'' = None"
  shows "snd (create_query env (Inr (JObj kvs))) =
           Inr (Reply 400 (ValidationErrors (Exn ValidationError (pydantic_error env JNull)))) \<and>
         snd (create_query env (Inr (JObj kvs))) \<noteq> Inr (Reply 500 b)"
proof -
  obtain l a where p: "process_query env JNull = (l, Inr a)"
    using process_query_returns [of env JNull] by (cases "process_query env JNull") auto
  have "snd (create_query env (Inr (JObj kvs))) =
           Inr (Reply 400 (ValidationErrors (Exn ValidationError (pydantic_error env JNull))))"
    using assms p
    by (simp add: create_query_def QueryResponse_def bind_def lift_def try_except_def ret_def)
  then show ?thesis by simp
qed

theorem missing_query_is_client_error_witness:
  "snd (create_query (example_env (chat_reply ''count pods'') (Inr [some_pod]) (Inr some_pod))
       (Inr (JObj [(''question'', JStr ''How many pods?'')]))) =
     Inr (Reply 400 (ValidationErrors (Exn ValidationError ''1 validation error for QueryResponse'')))"
proof -
  have m: "map_of [(''question'', JStr ''How many pods?'')] ''query'' = None"
    by simp
  show ?thesis
    using missing_query_is_client_error [OF m,
        of "example_env (chat_reply ''count pods'') (Inr [some_pod]) (Inr some_pod)"]
    by (simp add: example_env_def)
qed

text \<open>
  C9 as stated fails: the JSON bodies \<open>[]\<close> and \<open>null\<close> lack the query field too, and
  the endpoint answers them with status 500, not 400.
\<close>

theorem body_without_query_server_error:
  "snd (create_query (example_env (chat_reply ''count pods'') (Inr [some_pod]) (Inr some_pod))
       (Inr (JArr []))) =
     Inr (Reply 500 (UnexpectedError ''An unexpected error occurred.'')) \<and>
   snd (create_query (example_env (chat_reply ''count pods'') (Inr [some_pod]) (Inr some_pod))
       (Inr JNull)) =
     Inr (Reply 500 (UnexpectedError ''An unexpected error occurred.'')) \<and>
   py_get (JArr []) ''query'' JNull = Inl (no_attribute (JArr []) ''get'') \<and>
   py_get JNull ''query'' JNull = Inl (no_attribute JNull ''get'')"
  by (simp add: create_query_def bind_def lift_def try_except_def ret_def no_attribute_def)

end
